theory Spec2Isabelle
  imports Main
begin

section \<open>Documents\<close>

text \<open>
  The maintenance routes of \<^verbatim>\<open>router.js\<close> edit documents of unknown shape. A value is
  modelled as a tree. \<open>JObj\<close> lists the own properties of a plain object in
  enumeration order, \<open>JArr\<close> the elements of an array; \<open>JUndefined\<close> inside an array is
  a hole. \<open>JOid\<close> (a store identifier) and \<open>JDate\<close> are opaque: they are objects for
  \<^verbatim>\<open>typeof\<close> and \<^verbatim>\<open>_.isObject\<close>, and have no properties here. Request bodies are parsed
  JSON and hold none of \<open>JUndefined\<close>, \<open>JOid\<close>, \<open>JDate\<close>.

  Not modelled: properties inherited through the prototype chain of a document (the
  methods of \<^verbatim>\<open>Object.prototype\<close> and of store documents), non-integer numbers, and
  named (non-index) properties of arrays.
\<close>

datatype jv =
    JUndefined
  | JNull
  | JBool bool
  | JNum int
  | JStr string
  | JOid string
  | JDate nat
  | JArr "jv list"
  | JObj "(string \<times> jv) list"

definition nullish :: "jv \<Rightarrow> bool" where
  \<comment> \<open>\<^verbatim>\<open>v == null\<close>\<close>
  "nullish v = (v = JNull \<or> v = JUndefined)"

fun isArray :: "jv \<Rightarrow> bool" where
  "isArray (JArr _) = True"
| "isArray _ = False"

fun isObject :: "jv \<Rightarrow> bool" where
  \<comment> \<open>\<^verbatim>\<open>_.isObject\<close>: the value is not a primitive\<close>
  "isObject (JArr _) = True"
| "isObject (JObj _) = True"
| "isObject (JOid _) = True"
| "isObject (JDate _) = True"
| "isObject _ = False"

subsection \<open>Index keys\<close>

definition digit :: "char \<Rightarrow> bool" where
  "digit c = (c \<in> set ''0123456789'')"

definition digit_val :: "char \<Rightarrow> nat" where
  "digit_val c = of_char c - 48"

definition dec_val :: "string \<Rightarrow> nat" where
  "dec_val s = foldl (\<lambda>n c. 10 * n + digit_val c) 0 s"

definition isUint :: "string \<Rightarrow> bool" where
  \<comment> \<open>the pattern \<^verbatim>\<open>^(?:0|[1-9]\d*)$\<close>\<close>
  "isUint s = (s = ''0'' \<or> (s \<noteq> [] \<and> list_all digit s \<and> hd s \<noteq> CHR ''0''))"

definition isIndex :: "string \<Rightarrow> bool" where
  \<comment> \<open>\<^verbatim>\<open>isIndex(key)\<close> of lodash: an unsigned integer below \<^verbatim>\<open>MAX_SAFE_INTEGER\<close>\<close>
  "isIndex s = (isUint s \<and> dec_val s < 9007199254740991)"

definition arrayIndex :: "string \<Rightarrow> nat option" where
  \<comment> \<open>the key as an array index (below \<open>2^32 - 1\<close>), if it is one\<close>
  "arrayIndex s = (if isUint s \<and> dec_val s < 4294967295 then Some (dec_val s) else None)"

fun digit_char :: "nat \<Rightarrow> char" where
  "digit_char n = char_of (48 + n)"

fun nat_str :: "nat \<Rightarrow> string" where
  "nat_str n = (if n < 10 then [digit_char n] else nat_str (n div 10) @ [digit_char (n mod 10)])"

declare nat_str.simps [simp del]

definition int_str :: "int \<Rightarrow> string" where
  "int_str i = (if i < 0 then CHR ''-'' # nat_str (nat (- i)) else nat_str (nat i))"

subsection \<open>Property access\<close>

fun lookup :: "(string \<times> jv) list \<Rightarrow> string \<Rightarrow> jv" where
  "lookup [] k = JUndefined"
| "lookup ((k', v) # kvs) k = (if k' = k then v else lookup kvs k)"

fun assign :: "(string \<times> jv) list \<Rightarrow> string \<Rightarrow> jv \<Rightarrow> (string \<times> jv) list" where
  \<comment> \<open>\<^verbatim>\<open>o[k] = v\<close> on a plain object: an existing key keeps its place\<close>
  "assign [] k v = [(k, v)]"
| "assign ((k', v') # kvs) k v = (if k' = k then (k, v) # kvs else (k', v') # assign kvs k v)"

fun remove :: "(string \<times> jv) list \<Rightarrow> string \<Rightarrow> (string \<times> jv) list" where
  \<comment> \<open>\<^verbatim>\<open>delete o[k]\<close>\<close>
  "remove [] k = []"
| "remove ((k', v') # kvs) k = (if k' = k then kvs else (k', v') # remove kvs k)"

definition elem :: "jv list \<Rightarrow> nat \<Rightarrow> jv" where
  \<comment> \<open>\<^verbatim>\<open>xs[i]\<close>: undefined out of range\<close>
  "elem xs i = (if i < length xs then xs ! i else JUndefined)"

fun getProp :: "jv \<Rightarrow> string \<Rightarrow> jv" where
  \<comment> \<open>\<^verbatim>\<open>v[k]\<close> for \<open>v\<close> other than null and undefined\<close>
  "getProp (JObj kvs) k = lookup kvs k"
| "getProp (JArr xs) k =
     (if k = ''length'' then JNum (int (length xs))
      else case arrayIndex k of Some i \<Rightarrow> elem xs i | None \<Rightarrow> JUndefined)"
| "getProp (JStr s) k =
     (if k = ''length'' then JNum (int (length s))
      else case arrayIndex k of
             Some i \<Rightarrow> (if i < length s then JStr [s ! i] else JUndefined)
           | None \<Rightarrow> JUndefined)"
| "getProp _ k = JUndefined"

fun ownHas :: "jv \<Rightarrow> string \<Rightarrow> bool" where
  \<comment> \<open>\<^verbatim>\<open>hasOwnProperty.call(v, k)\<close> for \<open>v\<close> other than null and undefined\<close>
  "ownHas (JObj kvs) k = (k \<in> set (map fst kvs))"
| "ownHas (JArr xs) k =
     (k = ''length'' \<or> (case arrayIndex k of Some i \<Rightarrow> elem xs i \<noteq> JUndefined | None \<Rightarrow> False))"
| "ownHas (JStr s) k =
     (k = ''length'' \<or> (case arrayIndex k of Some i \<Rightarrow> i < length s | None \<Rightarrow> False))"
| "ownHas _ k = False"

section \<open>The path functions of lodash\<close>

text \<open>
  \<^verbatim>\<open>genericChangeField\<close> addresses a document through \<^verbatim>\<open>_.has\<close>, \<^verbatim>\<open>_.get\<close>, \<^verbatim>\<open>_.set\<close> and
  \<^verbatim>\<open>_.toPath\<close>. They are modelled from the library's source for paths given as strings.
  \<open>stringToPath\<close> splits at dots, which is what the library does on a string without
  brackets; \<open>dotted\<close> below names the paths on which every release agrees.
\<close>

fun splitDot :: "string \<Rightarrow> string list" where
  "splitDot [] = [[]]"
| "splitDot (c # cs) =
     (if c = CHR ''.'' then [] # splitDot cs
      else case splitDot cs of w # ws \<Rightarrow> (c # w) # ws | [] \<Rightarrow> [[c]])"

definition stringToPath :: "string \<Rightarrow> string list" where
  "stringToPath s = (if s = [] then [] else splitDot s)"

definition toPath :: "string \<Rightarrow> string list" where
  \<comment> \<open>\<^verbatim>\<open>_.toPath(path)\<close> on a string\<close>
  "toPath s = stringToPath s"

definition isKey :: "string \<Rightarrow> jv \<Rightarrow> bool" where
  \<comment> \<open>the string is one property name: it has no dot, or the object has it as a key\<close>
  "isKey s object = (CHR ''.'' \<notin> set s \<or> (\<not> nullish object \<and> ownHas object s))"

definition castPath :: "string \<Rightarrow> jv \<Rightarrow> string list" where
  "castPath s object = (if isKey s object then [s] else stringToPath s)"

fun walk :: "jv \<Rightarrow> string list \<Rightarrow> jv option" where
  \<comment> \<open>the loop of \<^verbatim>\<open>baseGet\<close>: descend while the value is not null or undefined;
      \<open>None\<close> when it stops before the last key\<close>
  "walk v [] = Some v"
| "walk v (k # ks) = (if nullish v then None else walk (getProp v k) ks)"

definition baseGet :: "jv \<Rightarrow> string \<Rightarrow> jv" where
  "baseGet object s =
     (let path = castPath s object
      in if path = [] then JUndefined
         else case walk object path of None \<Rightarrow> JUndefined | Some r \<Rightarrow> r)"

definition lget :: "jv \<Rightarrow> string \<Rightarrow> jv \<Rightarrow> jv" where
  \<comment> \<open>\<^verbatim>\<open>_.get(object, path, defaultValue)\<close>\<close>
  "lget object s dflt =
     (let r = (if nullish object then JUndefined else baseGet object s)
      in if r = JUndefined then dflt else r)"

fun hasPath :: "jv \<Rightarrow> string list \<Rightarrow> bool" where
  "hasPath v [] = False"
| "hasPath v [k] =
     ((\<not> nullish v \<and> ownHas v k) \<or>
      (case v of
         JArr xs \<Rightarrow> (case arrayIndex k of Some i \<Rightarrow> i < length xs | None \<Rightarrow> False)
       | _ \<Rightarrow> False))"
| "hasPath v (k # ks) = (\<not> nullish v \<and> ownHas v k \<and> hasPath (getProp v k) ks)"

definition lhas :: "jv \<Rightarrow> string \<Rightarrow> bool" where
  \<comment> \<open>\<^verbatim>\<open>_.has(object, path)\<close>\<close>
  "lhas object s = (\<not> nullish object \<and> hasPath object (castPath s object))"

definition assignValue :: "jv \<Rightarrow> string \<Rightarrow> jv \<Rightarrow> jv option" where
  \<comment> \<open>\<^verbatim>\<open>nested[key] = value\<close>; \<open>None\<close> where the result is no document of this
      model: a named property of an array, a property of an identifier or a date\<close>
  "assignValue nested k v =
     (case nested of
        JObj kvs \<Rightarrow> Some (JObj (assign kvs k v))
      | JArr xs \<Rightarrow>
          (case arrayIndex k of
             Some i \<Rightarrow>
               Some (JArr (if i < length xs then xs[i := v]
                           else xs @ replicate (i - length xs) JUndefined @ [v]))
           | None \<Rightarrow> None)
      | _ \<Rightarrow> None)"

fun setPath :: "jv \<Rightarrow> string list \<Rightarrow> jv \<Rightarrow> jv option" where
  \<comment> \<open>the loop of \<^verbatim>\<open>baseSet\<close>; a missing or primitive intermediate value is replaced
      by a new array when the next key is an index, by a new object otherwise\<close>
  "setPath nested [] v = Some nested"
| "setPath nested [k] v = assignValue nested k v"
| "setPath nested (k # k' # ks) v =
     (let objValue = getProp nested k;
          newValue = (if isObject objValue then objValue
                      else if isIndex k' then JArr [] else JObj [])
      in case setPath newValue (k' # ks) v of
           None \<Rightarrow> None
         | Some inner \<Rightarrow> assignValue nested k inner)"

definition lset :: "jv \<Rightarrow> string \<Rightarrow> jv \<Rightarrow> jv option" where
  \<comment> \<open>\<^verbatim>\<open>_.set(object, path, value)\<close>: a value that is not an object is returned as it is\<close>
  "lset object s v =
     (if \<not> isObject object then Some object else setPath object (castPath s object) v)"

definition objectPrototypeKeys :: "string list" where
  \<comment> \<open>the property names every plain object inherits from \<^verbatim>\<open>Object.prototype\<close>\<close>
  "objectPrototypeKeys =
     [''constructor'', ''__defineGetter__'', ''__defineSetter__'', ''hasOwnProperty'',
      ''__lookupGetter__'', ''__lookupSetter__'', ''isPrototypeOf'', ''propertyIsEnumerable'',
      ''toString'', ''valueOf'', ''__proto__'', ''toLocaleString'']"

definition plainKey :: "string \<Rightarrow> bool" where
  "plainKey k =
     (k \<noteq> [] \<and> CHR ''['' \<notin> set k \<and> CHR '']'' \<notin> set k \<and> k \<noteq> ''prototype'' \<and>
      k \<notin> set objectPrototypeKeys)"

definition dotted :: "string \<Rightarrow> bool" where
  \<comment> \<open>a path of non-empty segments separated by dots, without brackets, none of them
      the name of an inherited property\<close>
  "dotted s = list_all plainKey (splitDot s)"

section \<open>The store and the state of a request\<close>

datatype error =
    HttpError nat string  \<comment> \<open>\<^verbatim>\<open>createError(status, message)\<close>; the status is 500 when not given\<close>
  | TypeError             \<comment> \<open>a property or method of null or undefined, a call of a non-function\<close>
  | IdError               \<comment> \<open>\<^verbatim>\<open>ObjectId(value)\<close> refused the value\<close>
  | StoreError jv         \<comment> \<open>the store rejected an operation\<close>

datatype outcome =
    Responded nat jv      \<comment> \<open>\<^verbatim>\<open>res.status(n).send(body)\<close>\<close>
  | Threw error           \<comment> \<open>an exception left the handler or its callback\<close>
  | Silent                \<comment> \<open>the callback returned without a response\<close>

text \<open>
  The store and the clock are parameters: \<open>findOne\<close> and \<open>find\<close> give the error and the
  result handed to the callback, \<open>save\<close> and \<open>remove\<close> the error or the stored document,
  \<open>ObjectId\<close> the identifier made from a value (\<open>None\<close> when the constructor throws),
  \<open>equals h v\<close> the method \<^verbatim>\<open>equals(v)\<close> of the identifier with the digits \<open>h\<close>,
  \<open>dateString\<close> the text of a date, and \<open>now\<close> the instant \<^verbatim>\<open>new Date()\<close> reads.
\<close>

record env =
  findOne :: "jv \<Rightarrow> jv \<times> jv"
  find :: "jv \<Rightarrow> jv \<times> jv"
  save :: "jv \<Rightarrow> jv + jv"
  remove_doc :: "jv \<Rightarrow> jv + jv"
  ObjectId :: "jv \<Rightarrow> jv option"
  equals :: "string \<Rightarrow> jv \<Rightarrow> bool"
  dateString :: "nat \<Rightarrow> string"
  now :: nat

record doc_state =
  object :: jv          \<comment> \<open>the document in memory\<close>
  marked :: "jv list"   \<comment> \<open>the arguments of \<^verbatim>\<open>markModified\<close>, in call order\<close>
  saves :: nat          \<comment> \<open>the calls of \<^verbatim>\<open>save\<close>\<close>
  removes :: nat        \<comment> \<open>the calls of \<^verbatim>\<open>remove\<close>\<close>

definition fetched :: "jv \<Rightarrow> doc_state" where
  "fetched d = \<lparr>object = d, marked = [], saves = 0, removes = 0\<rparr>"

definition markModified :: "doc_state \<Rightarrow> jv \<Rightarrow> doc_state \<times> error option" where
  \<comment> \<open>\<^verbatim>\<open>object.markModified(arg)\<close>; there is no such method on null\<close>
  "markModified st arg =
     (if nullish (object st) then (st, Some TypeError)
      else (st\<lparr>marked := marked st @ [arg]\<rparr>, None))"

fun indexed :: "nat \<Rightarrow> jv list \<Rightarrow> (string \<times> jv) list" where
  "indexed i [] = []"
| "indexed i (x # xs) =
     (if x = JUndefined then indexed (Suc i) xs else (nat_str i, x) # indexed (Suc i) xs)"

fun entries :: "jv \<Rightarrow> (string \<times> jv) list option" where
  \<comment> \<open>\<^verbatim>\<open>Object.entries(v)\<close>; \<open>None\<close> is the TypeError on null and undefined\<close>
  "entries JUndefined = None"
| "entries JNull = None"
| "entries (JObj kvs) = Some kvs"
| "entries (JArr xs) = Some (indexed 0 xs)"
| "entries (JStr s) = Some (indexed 0 (map (\<lambda>c. JStr [c]) s))"
| "entries _ = Some []"

fun typeofObject :: "jv \<Rightarrow> bool" where
  \<comment> \<open>\<^verbatim>\<open>typeof v === "object"\<close>\<close>
  "typeofObject JNull = True"
| "typeofObject v = isObject v"

fun truthy :: "jv \<Rightarrow> bool" where
  "truthy JUndefined = False"
| "truthy JNull = False"
| "truthy (JBool b) = b"
| "truthy (JNum n) = (n \<noteq> 0)"
| "truthy (JStr s) = (s \<noteq> [])"
| "truthy _ = True"

section \<open>genericChangeField\<close>

text \<open>
  One entry of \<^verbatim>\<open>changes\<close>. The result is the state after the entry and the exception
  it threw, if any; \<open>None\<close> when \<^verbatim>\<open>_.set\<close> leaves the documents of this model. The array
  that \<^verbatim>\<open>_.get\<close> returns is the one inside the document, so \<^verbatim>\<open>arr.push(value)\<close> is the
  document with the longer array at the same path; when \<^verbatim>\<open>_.get\<close> falls back to its
  default, \<^verbatim>\<open>arr\<close> is the request's value and the document stays as it is.
\<close>

definition setIn :: "doc_state \<Rightarrow> string \<Rightarrow> jv \<Rightarrow> doc_state option" where
  "setIn st path v = map_option (\<lambda>d. st\<lparr>object := d\<rparr>) (lset (object st) path v)"

definition pushChange :: "doc_state \<Rightarrow> string \<Rightarrow> jv \<Rightarrow> (doc_state \<times> error option) option" where
  "pushChange st path v =
     (case (if lhas (object st) path then Some st else setIn st path (JArr [])) of
        None \<Rightarrow> None
      | Some st1 \<Rightarrow>
          (case lget (object st1) path v of
             JArr xs \<Rightarrow>
               (if lget (object st1) path JUndefined = JUndefined then Some (st1, None)
                else map_option (\<lambda>st2. (st2, None)) (setIn st1 path (JArr (xs @ [v]))))
           | _ \<Rightarrow> Some (st1, Some (HttpError 500 (path @ '' is not an array'')))))"

definition firstSegment :: "string \<Rightarrow> jv" where
  \<comment> \<open>\<^verbatim>\<open>_.toPath(path)[0]\<close>\<close>
  "firstSegment path = (case toPath path of [] \<Rightarrow> JUndefined | k # _ \<Rightarrow> JStr k)"

definition applyChange :: "env \<Rightarrow> doc_state \<Rightarrow> string \<times> jv \<Rightarrow> (doc_state \<times> error option) option" where
  "applyChange e st pc =
     (let path = fst pc; change = snd pc
      in if \<not> typeofObject change then Some (st, Some (HttpError 400 (''Bad change value for '' @ path)))
         else case entries change of
           None \<Rightarrow> Some (st, Some TypeError)
         | Some [(changeType, v)] \<Rightarrow>
             (case
                (if changeType = ''$set'' then map_option (\<lambda>s. (s, None)) (setIn st path v)
                 else if changeType = ''$setid'' then
                   (case ObjectId e v of
                      None \<Rightarrow> Some (st, Some IdError)
                    | Some i \<Rightarrow> map_option (\<lambda>s. (s, None)) (setIn st path i))
                 else if changeType = ''$setstatus'' then
                   map_option (\<lambda>s. (s, None))
                     (setIn st path (JObj [(''code'', v), (''date'', JDate (now e))]))
                 else if changeType = ''$push'' then pushChange st path v
                 else Some (st, Some (HttpError 400 (''Unrecognized changeType '' @ changeType))))
              of
                None \<Rightarrow> None
              | Some (st1, Some err) \<Rightarrow> Some (st1, Some err)
              | Some (st1, None) \<Rightarrow> Some (markModified st1 (firstSegment path)))
         | Some _ \<Rightarrow> Some (st, Some (HttpError 400 (''Bad change value for '' @ path))))"

fun applyChanges :: "env \<Rightarrow> doc_state \<Rightarrow> (string \<times> jv) list \<Rightarrow> (doc_state \<times> error option) option" where
  \<comment> \<open>the \<^verbatim>\<open>forEach\<close> over the entries: the first exception ends it\<close>
  "applyChanges e st [] = Some (st, None)"
| "applyChanges e st (pc # pcs) =
     (case applyChange e st pc of
        None \<Rightarrow> None
      | Some (st1, Some err) \<Rightarrow> Some (st1, Some err)
      | Some (st1, None) \<Rightarrow> applyChanges e st1 pcs)"

definition saveObject :: "env \<Rightarrow> doc_state \<Rightarrow> nat \<Rightarrow> doc_state \<times> outcome" where
  \<comment> \<open>\<^verbatim>\<open>object.save\<close> with the callback that answers 500 or the given status\<close>
  "saveObject e st ok =
     (if nullish (object st) then (st, Threw TypeError)
      else case save e (object st) of
             Inl err \<Rightarrow> (st\<lparr>saves := saves st + 1\<rparr>, Responded 500 err)
           | Inr d \<Rightarrow> (st\<lparr>saves := saves st + 1\<rparr>, Responded ok d))"

definition genericChangeField :: "env \<Rightarrow> bool \<Rightarrow> jv \<Rightarrow> jv \<Rightarrow> (doc_state \<times> outcome) option" where
  \<comment> \<open>\<open>query\<close> and \<open>changes\<close> are \<^verbatim>\<open>req.body.query\<close> and \<^verbatim>\<open>req.body.changes\<close>; the awaited
      calls throw the store's error\<close>
  "genericChangeField e saveEnabled query changes =
     (let findError = fst (findOne e query); d = snd (findOne e query)
      in if \<not> nullish findError then Some (fetched JUndefined, Threw (StoreError findError))
        else case entries changes of
          None \<Rightarrow> Some (fetched d, Threw TypeError)
        | Some pcs \<Rightarrow>
            (case applyChanges e (fetched d) pcs of
               None \<Rightarrow> None
             | Some (st, Some err) \<Rightarrow> Some (st, Threw err)
             | Some (st, None) \<Rightarrow>
                 if \<not> saveEnabled then Some (st, Responded 200 (object st))
                 else if nullish (object st) then Some (st, Threw TypeError)
                 else (case save e (object st) of
                         Inl err \<Rightarrow> Some (st\<lparr>saves := saves st + 1\<rparr>, Threw (StoreError err))
                       | Inr d' \<Rightarrow> Some (st\<lparr>saves := saves st + 1\<rparr>, Responded 201 d'))))"

section \<open>Strings of values\<close>

fun joinComma :: "string list \<Rightarrow> string" where
  "joinComma [] = []"
| "joinComma [s] = s"
| "joinComma (s # t # ts) = s @ '','' @ joinComma (t # ts)"

fun jsString :: "(nat \<Rightarrow> string) \<Rightarrow> jv \<Rightarrow> string" where
  \<comment> \<open>\<^verbatim>\<open>String(v)\<close>, which is also the property key \<^verbatim>\<open>o[v]\<close> reads; for a value other
      than null and undefined it is \<^verbatim>\<open>v.toString()\<close>\<close>
  "jsString ds JUndefined = ''undefined''"
| "jsString ds JNull = ''null''"
| "jsString ds (JBool b) = (if b then ''true'' else ''false'')"
| "jsString ds (JNum n) = int_str n"
| "jsString ds (JStr s) = s"
| "jsString ds (JOid h) = h"
| "jsString ds (JDate t) = ds t"
| "jsString ds (JArr xs) = joinComma (map (\<lambda>x. if x = JNull \<or> x = JUndefined then [] else jsString ds x) xs)"
| "jsString ds (JObj kvs) = ''[object Object]''"

definition toKey :: "env \<Rightarrow> jv \<Rightarrow> string" where
  "toKey e v = jsString (dateString e) v"

section \<open>Places inside a document\<close>

text \<open>
  The handlers below keep references into the document and change what they refer to in
  place. A reference to a part of the document is its place: the property names and array
  positions that lead to it from the root. Documents are trees, so a part has one place.
\<close>

datatype step = Field string | Index nat

fun valueAt :: "jv \<Rightarrow> step list \<Rightarrow> jv" where
  "valueAt v [] = v"
| "valueAt v (Field k # l) = valueAt (getProp v k) l"
| "valueAt v (Index i # l) = (case v of JArr xs \<Rightarrow> valueAt (elem xs i) l | _ \<Rightarrow> JUndefined)"

fun replaceAt :: "jv \<Rightarrow> step list \<Rightarrow> jv \<Rightarrow> jv" where
  \<comment> \<open>the document with the part at an existing place replaced\<close>
  "replaceAt v [] w = w"
| "replaceAt v (Field k # l) w =
     (case v of
        JObj kvs \<Rightarrow> JObj (assign kvs k (replaceAt (lookup kvs k) l w))
      | JArr xs \<Rightarrow>
          (case arrayIndex k of
             Some i \<Rightarrow> JArr (xs[i := replaceAt (elem xs i) l w])
           | None \<Rightarrow> v)
      | _ \<Rightarrow> v)"
| "replaceAt v (Index i # l) w =
     (case v of JArr xs \<Rightarrow> JArr (xs[i := replaceAt (elem xs i) l w]) | _ \<Rightarrow> v)"

section \<open>genericDeleteRoute\<close>

fun findById :: "env \<Rightarrow> jv \<Rightarrow> jv list \<Rightarrow> nat \<Rightarrow> error + nat option" where
  \<comment> \<open>\<^verbatim>\<open>xs.find(function(arrayObject) { return arrayObject._id.equals(id); })\<close>: the
      position of the element found. Only an identifier has the method \<^verbatim>\<open>equals\<close>.\<close>
  "findById e idv [] i = Inr None"
| "findById e idv (x # xs) i =
     (if nullish x then Inl TypeError
      else case getProp x ''_id'' of
             JOid h \<Rightarrow> (if equals e h idv then Inr (Some i) else findById e idv xs (Suc i))
           | _ \<Rightarrow> Inl TypeError)"

record cursor =
  previousObject :: jv
  previousPlace :: "step list"
  currentObject :: jv
  currentPlace :: "step list option"  \<comment> \<open>\<open>None\<close>: the value is not a part of the document\<close>

definition descend :: "env \<Rightarrow> cursor \<Rightarrow> jv \<Rightarrow> error + cursor" where
  \<comment> \<open>the body of the \<^verbatim>\<open>forEach\<close> over \<^verbatim>\<open>deleteFieldsById\<close>\<close>
  "descend e c currentField =
     (if nullish currentField \<or> nullish (currentObject c) then Inl TypeError
      else
        let key = toKey e (getProp currentField ''field'');
            next = getProp (currentObject c) key;
            place = (case currentPlace c of None \<Rightarrow> [] | Some p \<Rightarrow> p) @ [Field key];
            c1 = \<lparr>previousObject = next, previousPlace = place,
                  currentObject = next, currentPlace = Some place\<rparr>
        in if nullish (getProp currentField ''id'') then Inr c1
           else case next of
                  JArr xs \<Rightarrow>
                    (case findById e (getProp currentField ''id'') xs 0 of
                       Inl err \<Rightarrow> Inl err
                     | Inr None \<Rightarrow> Inr (c1\<lparr>currentObject := JUndefined, currentPlace := None\<rparr>)
                     | Inr (Some i) \<Rightarrow>
                         Inr (c1\<lparr>currentObject := xs ! i, currentPlace := Some (place @ [Index i])\<rparr>))
                | _ \<Rightarrow> Inl TypeError)"

fun descendAll :: "env \<Rightarrow> cursor \<Rightarrow> jv list \<Rightarrow> error + cursor" where
  "descendAll e c [] = Inr c"
| "descendAll e c (f # fs) =
     (case descend e c f of Inl err \<Rightarrow> Inl err | Inr c1 \<Rightarrow> descendAll e c1 fs)"

definition indexOfCurrent :: "cursor \<Rightarrow> nat option" where
  \<comment> \<open>\<^verbatim>\<open>previousObject.indexOf(currentObject)\<close> on an array: the search is by identity, so
      it finds the element only where \<open>currentObject\<close> is the element that \<open>find\<close> returned;
      \<open>None\<close> is \<open>-1\<close>\<close>
  "indexOfCurrent c =
     (case currentPlace c of
        None \<Rightarrow> None
      | Some place \<Rightarrow>
          (if place \<noteq> [] \<and> butlast place = previousPlace c
           then (case last place of Index i \<Rightarrow> Some i | Field k \<Rightarrow> None)
           else None))"

definition splice1 :: "jv list \<Rightarrow> nat option \<Rightarrow> jv list" where
  \<comment> \<open>\<^verbatim>\<open>xs.splice(removeIndex, 1)\<close>; the start \<open>-1\<close> is the last position\<close>
  "splice1 xs r = (case r of None \<Rightarrow> butlast xs | Some i \<Rightarrow> take i xs @ drop (Suc i) xs)"

definition holeless :: "jv list \<Rightarrow> jv list" where
  \<comment> \<open>the elements \<^verbatim>\<open>forEach\<close> visits\<close>
  "holeless xs = filter (\<lambda>x. x \<noteq> JUndefined) xs"

definition deleteById :: "env \<Rightarrow> doc_state \<Rightarrow> jv \<Rightarrow> doc_state \<times> error option" where
  "deleteById e st deleteFieldsById =
     (case deleteFieldsById of
        JArr ds \<Rightarrow>
          (case descendAll e \<lparr>previousObject = JUndefined, previousPlace = [],
                                currentObject = object st, currentPlace = Some []\<rparr> (holeless ds) of
             Inl err \<Rightarrow> (st, Some err)
           | Inr c \<Rightarrow>
               (case previousObject c of
                  JArr xs \<Rightarrow>
                    markModified
                      (st\<lparr>object := replaceAt (object st) (previousPlace c)
                                        (JArr (splice1 xs (indexOfCurrent c)))\<rparr>)
                      (elem ds 0)
                | _ \<Rightarrow> (st, Some TypeError)))
      | _ \<Rightarrow> (st, Some TypeError))"

definition deleteProp :: "jv \<Rightarrow> string \<Rightarrow> jv" where
  \<comment> \<open>\<^verbatim>\<open>delete object[k]\<close> on a document\<close>
  "deleteProp d k = (case d of JObj kvs \<Rightarrow> JObj (remove kvs k) | _ \<Rightarrow> d)"

fun deleteEach :: "env \<Rightarrow> doc_state \<Rightarrow> jv list \<Rightarrow> doc_state \<times> error option" where
  "deleteEach e st [] = (st, None)"
| "deleteEach e st (deleteField # fs) =
     (case markModified (st\<lparr>object := deleteProp (object st) (toKey e deleteField)\<rparr>) deleteField of
        (st1, Some err) \<Rightarrow> (st1, Some err)
      | (st1, None) \<Rightarrow> deleteEach e st1 fs)"

definition answer :: "env \<Rightarrow> bool \<Rightarrow> doc_state \<Rightarrow> doc_state \<times> outcome" where
  \<comment> \<open>the end of a handler: the document as it is when saving is off, else
      \<^verbatim>\<open>object.save\<close> with a callback that answers 500 with the error or 200 with the
      saved document\<close>
  "answer e saveEnabled st =
     (if \<not> saveEnabled then (st, Responded 200 (object st))
      else case save e (object st) of
             Inl err \<Rightarrow> (st\<lparr>saves := saves st + 1\<rparr>, Responded 500 err)
           | Inr d \<Rightarrow> (st\<lparr>saves := saves st + 1\<rparr>, Responded 200 d))"

record delete_request =
  query :: jv
  deleteFields :: jv
  deleteFieldsById :: jv
  deleteAll :: jv
  deleteArray :: jv

definition genericDeleteRoute :: "env \<Rightarrow> bool \<Rightarrow> delete_request \<Rightarrow> doc_state \<times> outcome" where
  "genericDeleteRoute e saveEnabled rq =
     (if \<not> (truthy (deleteFields rq) \<or> truthy (deleteFieldsById rq) \<or> truthy (deleteAll rq)
             \<or> truthy (deleteArray rq))
      then (fetched JUndefined, Responded 400 (JStr ''Nothing to delete!''))
      else if nullish (query rq) then (fetched JUndefined, Responded 500 (JStr ''No query''))
      else
        let findError = fst (findOne e (query rq)); d = snd (findOne e (query rq)); st = fetched d
        in if truthy findError then (fetched JUndefined, Responded 500 findError)
           else if nullish d then
             (st, Responded 500 (JObj [(''gigitError'', JStr ''no objects found '')]))
           else if truthy (deleteFieldsById rq) then
             (case deleteById e st (deleteFieldsById rq) of
                (st1, Some err) \<Rightarrow> (st1, Threw err)
              | (st1, None) \<Rightarrow> answer e saveEnabled st1)
           else if truthy (deleteAll rq) then
             (if \<not> saveEnabled then (st, Responded 200 d)
              else case remove_doc e d of
                     Inl err \<Rightarrow> (st\<lparr>removes := 1\<rparr>, Responded 500 err)
                   | Inr d' \<Rightarrow> (st\<lparr>removes := 1\<rparr>, Responded 200 d'))
           else if truthy (deleteFields rq) then
             (case deleteFields rq of
                JArr fs \<Rightarrow>
                  (case deleteEach e st (holeless fs) of
                     (st1, Some err) \<Rightarrow> (st1, Threw err)
                   | (st1, None) \<Rightarrow> answer e saveEnabled st1)
              | _ \<Rightarrow> (st, Threw TypeError))
           else if \<not> nullish (deleteArray rq) then
             (case markModified
                     (st\<lparr>object := (case d of
                                       JObj kvs \<Rightarrow> JObj (assign kvs (toKey e (deleteArray rq)) (JArr []))
                                     | _ \<Rightarrow> d)\<rparr>)
                     (deleteArray rq) of
                (st1, Some err) \<Rightarrow> (st1, Threw err)
              | (st1, None) \<Rightarrow> answer e saveEnabled st1)
           else (st, Responded 400 (JStr ''Nothing to delete!'')))"

section \<open>genericTranslate\<close>

text \<open>
  The file is in strict mode: deleting a property that cannot be deleted (the length of
  an array, the length or a character of a string) and assigning a property of a
  primitive value throw a TypeError.
\<close>

definition deleteKey :: "jv \<Rightarrow> string \<Rightarrow> error + jv" where
  \<comment> \<open>\<^verbatim>\<open>delete v[k]\<close> for \<open>v\<close> other than null and undefined\<close>
  "deleteKey v k =
     (case v of
        JObj kvs \<Rightarrow> Inr (JObj (remove kvs k))
      | JArr xs \<Rightarrow>
          (if k = ''length'' then Inl TypeError
           else case arrayIndex k of
                  Some i \<Rightarrow> Inr (if i < length xs then JArr (xs[i := JUndefined]) else v)
                | None \<Rightarrow> Inr v)
      | JStr s \<Rightarrow> (if ownHas v k then Inl TypeError else Inr v)
      | _ \<Rightarrow> Inr v)"

fun descendTokens :: "jv \<Rightarrow> step list \<Rightarrow> string list \<Rightarrow> jv \<times> step list" where
  \<comment> \<open>the \<^verbatim>\<open>for\<close> loops over all tokens but the last: a value that is null or undefined
      stays\<close>
  "descendTokens v place [] = (v, place)"
| "descendTokens v place (t # ts) =
     (if nullish v then descendTokens v place ts
      else descendTokens (getProp v t) (place @ [Field t]) ts)"

definition takeField :: "doc_state \<Rightarrow> string list \<Rightarrow> (doc_state \<times> jv) \<times> error option" where
  \<comment> \<open>read \<open>finalValue\<close> at the tokens of \<^verbatim>\<open>fromField\<close> and delete it there\<close>
  "takeField st updateTokens =
     (let r = descendTokens (object st) [] (butlast updateTokens);
          currentValue = fst r; place = snd r
      in if nullish currentValue then ((st, JUndefined), None)
         else case deleteKey currentValue (last updateTokens) of
                Inl err \<Rightarrow> ((st, getProp currentValue (last updateTokens)), Some err)
              | Inr w \<Rightarrow>
                  ((st\<lparr>object := replaceAt (object st) place w\<rparr>,
                    getProp currentValue (last updateTokens)), None))"

definition putField :: "doc_state \<Rightarrow> string list \<Rightarrow> jv \<Rightarrow> (doc_state \<times> error option) option" where
  \<comment> \<open>write \<open>finalValue\<close> at the tokens of \<^verbatim>\<open>toField\<close>; \<open>None\<close> as for \<open>assignValue\<close>\<close>
  "putField st updateFields finalValue =
     (let r = descendTokens (object st) [] (butlast updateFields);
          currentField = fst r; place = snd r
      in if nullish currentField \<or> nullish finalValue then Some (st, None)
         else if \<not> isObject currentField then Some (st, Some TypeError)
         else case assignValue currentField (last updateFields) finalValue of
                None \<Rightarrow> None
              | Some w \<Rightarrow> Some (st\<lparr>object := replaceAt (object st) place w\<rparr>, None))"

definition applyUpdate :: "doc_state \<Rightarrow> jv \<Rightarrow> (doc_state \<times> error option) option" where
  \<comment> \<open>the body of \<^verbatim>\<open>updates.forEach\<close> for one object; \<^verbatim>\<open>split\<close> is a method of strings
      only\<close>
  "applyUpdate st update =
     (if nullish update then Some (st, Some TypeError)
      else case getProp update ''fromField'' of
        JStr from \<Rightarrow>
          (case markModified st (JStr (hd (splitDot from))) of
             (st1, Some err) \<Rightarrow> Some (st1, Some err)
           | (st1, None) \<Rightarrow>
               (case takeField st1 (splitDot from) of
                  ((st2, finalValue), Some err) \<Rightarrow> Some (st2, Some err)
                | ((st2, finalValue), None) \<Rightarrow>
                    (case getProp update ''toField'' of
                       JStr to \<Rightarrow>
                         (case markModified st2 (JStr (hd (splitDot to))) of
                            (st3, Some err) \<Rightarrow> Some (st3, Some err)
                          | (st3, None) \<Rightarrow> putField st3 (splitDot to) finalValue)
                     | _ \<Rightarrow> Some (st2, Some TypeError))))
      | _ \<Rightarrow> Some (st, Some TypeError))"

fun applyUpdates :: "doc_state \<Rightarrow> jv list \<Rightarrow> (doc_state \<times> error option) option" where
  "applyUpdates st [] = Some (st, None)"
| "applyUpdates st (u # us) =
     (case applyUpdate st u of
        None \<Rightarrow> None
      | Some (st1, Some err) \<Rightarrow> Some (st1, Some err)
      | Some (st1, None) \<Rightarrow> applyUpdates st1 us)"

definition translateObject :: "jv \<Rightarrow> jv \<Rightarrow> (doc_state \<times> error option) option" where
  \<comment> \<open>the body of \<^verbatim>\<open>objects.forEach\<close>: the updates, then \<^verbatim>\<open>object.save()\<close> with no
      callback\<close>
  "translateObject updates d =
     (case updates of
        JArr us \<Rightarrow>
          (case applyUpdates (fetched d) (holeless us) of
             None \<Rightarrow> None
           | Some (st, Some err) \<Rightarrow> Some (st, Some err)
           | Some (st, None) \<Rightarrow>
               (if nullish d then Some (st, Some TypeError)
                else Some (st\<lparr>saves := saves st + 1\<rparr>, None)))
      | _ \<Rightarrow> Some (fetched d, Some TypeError))"

fun translateAll :: "jv \<Rightarrow> jv list \<Rightarrow> (doc_state list \<times> error option) option" where
  \<comment> \<open>the states of the objects visited so far; an exception ends the loop\<close>
  "translateAll updates [] = Some ([], None)"
| "translateAll updates (d # ds) =
     (case translateObject updates d of
        None \<Rightarrow> None
      | Some (st, Some err) \<Rightarrow> Some ([st], Some err)
      | Some (st, None) \<Rightarrow>
          (case translateAll updates ds of
             None \<Rightarrow> None
           | Some (sts, r) \<Rightarrow> Some (st # sts, r)))"

definition genericTranslate :: "env \<Rightarrow> jv \<Rightarrow> jv \<Rightarrow> (doc_state list \<times> outcome) option" where
  \<comment> \<open>\<open>find e q\<close> is the pair \<^verbatim>\<open>(findError, objects)\<close> the callback receives; the
      states are those of the objects the loop visited\<close>
  "genericTranslate e q updates =
     (let findError = fst (find e q); objects = snd (find e q)
      in if nullish findError then Some ([], Responded 500 findError)
         else case objects of
                JArr ds \<Rightarrow>
                  (case translateAll updates (holeless ds) of
                     None \<Rightarrow> None
                   | Some (sts, Some err) \<Rightarrow> Some (sts, Threw err)
                   | Some (sts, None) \<Rightarrow> Some (sts, Silent))
              | _ \<Rightarrow> Some ([], Threw TypeError))"

section \<open>removeArrayDuplicates\<close>

text \<open>
  A fetched document is null or a plain object. \<^verbatim>\<open>objectKeys\<close> is a plain object used as
  a set of strings: \<^verbatim>\<open>objectKeys[fieldKey]\<close> is truthy for the keys stored so far and
  for the names it inherits from \<^verbatim>\<open>Object.prototype\<close>, whose values are functions.
\<close>

definition toStringOf :: "env \<Rightarrow> jv \<Rightarrow> error + string" where
  \<comment> \<open>\<^verbatim>\<open>v.toString()\<close>: there is no such method on null and undefined, and an own
      property of that name is data, not a function\<close>
  "toStringOf e v =
     (if nullish v then Inl TypeError
      else case v of
             JObj kvs \<Rightarrow> (if ownHas v ''toString'' then Inl TypeError else Inr ''[object Object]'')
           | _ \<Rightarrow> Inr (jsString (dateString e) v))"

definition fieldKeyOf :: "env \<Rightarrow> jv \<Rightarrow> jv \<Rightarrow> error + string option" where
  \<comment> \<open>the \<^verbatim>\<open>fieldKey\<close> of an element; \<open>None\<close> is null\<close>
  "fieldKeyOf e uniqueField element =
     (case toStringOf e element of
        Inl err \<Rightarrow> Inl err
      | Inr own \<Rightarrow>
          (if nullish uniqueField then Inr (Some own)
           else if nullish (getProp element (toKey e uniqueField)) then Inr None
           else case toStringOf e (getProp element (toKey e uniqueField)) of
                  Inl err \<Rightarrow> Inl err
                | Inr k \<Rightarrow> Inr (Some k)))"

definition seenKey :: "string list \<Rightarrow> string \<Rightarrow> bool" where
  \<comment> \<open>\<^verbatim>\<open>objectKeys[fieldKey]\<close> is truthy\<close>
  "seenKey objectKeys k = (k \<in> set objectKeys \<or> k \<in> set objectPrototypeKeys)"

fun filterDuplicates :: "env \<Rightarrow> jv \<Rightarrow> string list \<Rightarrow> jv list \<Rightarrow> error + jv list" where
  \<comment> \<open>the \<^verbatim>\<open>filter\<close> with its callback; \<open>objectKeys\<close> are the keys stored so far.
      \<^verbatim>\<open>filter\<close> does not visit holes\<close>
  "filterDuplicates e uniqueField objectKeys [] = Inr []"
| "filterDuplicates e uniqueField objectKeys (x # xs) =
     (if x = JUndefined then filterDuplicates e uniqueField objectKeys xs
      else case fieldKeyOf e uniqueField x of
        Inl err \<Rightarrow> Inl err
      | Inr None \<Rightarrow> map_sum id (Cons x) (filterDuplicates e uniqueField objectKeys xs)
      | Inr (Some k) \<Rightarrow>
          (if seenKey objectKeys k then filterDuplicates e uniqueField objectKeys xs
           else map_sum id (Cons x) (filterDuplicates e uniqueField (k # objectKeys) xs)))"

definition setField :: "jv \<Rightarrow> string \<Rightarrow> jv \<Rightarrow> jv" where
  \<comment> \<open>\<^verbatim>\<open>object[k] = v\<close> on a fetched document\<close>
  "setField d k v = (case d of JObj kvs \<Rightarrow> JObj (assign kvs k v) | _ \<Rightarrow> d)"

definition removeArrayDuplicates :: "env \<Rightarrow> bool \<Rightarrow> jv \<Rightarrow> jv \<Rightarrow> jv \<Rightarrow> doc_state \<times> outcome" where
  \<comment> \<open>the arguments after \<open>saveEnabled\<close> are \<^verbatim>\<open>query\<close>, \<^verbatim>\<open>uniqueField\<close> and
      \<^verbatim>\<open>arrayField\<close> of the request body\<close>
  "removeArrayDuplicates e saveEnabled q uniqueField arrayField =
     (let err = fst (findOne e q); d = snd (findOne e q); st = fetched d
      in if truthy err then (fetched JUndefined, Responded 500 err)
         else if nullish d then (st, Threw TypeError)
         else case getProp d (toKey e arrayField) of
                JArr xs \<Rightarrow>
                  (case filterDuplicates e uniqueField [] xs of
                     Inl ex \<Rightarrow> (st, Threw ex)
                   | Inr ys \<Rightarrow>
                       (case markModified (st\<lparr>object := setField d (toKey e arrayField) (JArr ys)\<rparr>)
                               arrayField of
                          (st1, Some ex) \<Rightarrow> (st1, Threw ex)
                        | (st1, None) \<Rightarrow> answer e saveEnabled st1))
              | _ \<Rightarrow> (st, Responded 404 (JStr ''Array not found!'')))"

section \<open>genericInject\<close>

fun findByIdString :: "env \<Rightarrow> string \<Rightarrow> jv list \<Rightarrow> nat \<Rightarrow> error + nat option" where
  \<comment> \<open>\<^verbatim>\<open>xs.find(function(currentSubObject) { return currentSubObject._id.toString() ===
      currentFieldId; })\<close>: the position of the element found\<close>
  "findByIdString e currentFieldId [] i = Inr None"
| "findByIdString e currentFieldId (x # xs) i =
     (if nullish x then Inl TypeError
      else case toStringOf e (getProp x ''_id'') of
             Inl err \<Rightarrow> Inl err
           | Inr s \<Rightarrow> (if s = currentFieldId then Inr (Some i)
                       else findByIdString e currentFieldId xs (Suc i)))"

definition argumentsOf :: "jv \<Rightarrow> (error + jv list) option" where
  \<comment> \<open>the argument list \<^verbatim>\<open>apply\<close> makes of its second argument: none for null and
      undefined, the elements of an array, a TypeError for a primitive. \<open>None\<close>: another
      object, read through a length this model does not have\<close>
  "argumentsOf v =
     (case v of
        JArr xs \<Rightarrow> Some (Inr xs)
      | JUndefined \<Rightarrow> Some (Inr [])
      | JNull \<Rightarrow> Some (Inr [])
      | JObj kvs \<Rightarrow> None
      | JOid h \<Rightarrow> None
      | JDate t \<Rightarrow> Some (Inr [])
      | _ \<Rightarrow> Some (Inl TypeError))"

fun putAll :: "(string \<times> jv) list \<Rightarrow> nat \<Rightarrow> jv list \<Rightarrow> (string \<times> jv) list" where
  "putAll kvs n [] = kvs"
| "putAll kvs n (x # xs) = putAll (assign kvs (nat_str n) x) (Suc n) xs"

definition pushOnto :: "jv \<Rightarrow> jv list \<Rightarrow> (error + jv) option" where
  \<comment> \<open>\<^verbatim>\<open>Array.prototype.push\<close> called with \<open>this\<close> and the arguments: on an array it
      appends; on a plain object it stores the arguments under the names \<open>length\<close>,
      \<open>length + 1\<close>, ... and sets the property \<open>length\<close>. \<open>None\<close>: a length that is
      neither absent nor null, a boolean or a number, or \<open>this\<close> is another value\<close>
  "pushOnto this args =
     (case this of
        JArr xs \<Rightarrow> Some (Inr (JArr (xs @ args)))
      | JObj kvs \<Rightarrow>
          (case (case lookup kvs ''length'' of
                   JUndefined \<Rightarrow> Some 0
                 | JNull \<Rightarrow> Some 0
                 | JBool b \<Rightarrow> Some (if b then 1 else 0)
                 | JNum n \<Rightarrow> Some (if n \<le> 0 then 0 else min (nat n) 9007199254740991)
                 | _ \<Rightarrow> None) of
             None \<Rightarrow> None
           | Some len \<Rightarrow>
               (if len + length args > 9007199254740991 then Some (Inl TypeError)
                else Some (Inr (JObj (assign (putAll kvs len args) ''length''
                                        (JNum (int (len + length args))))))))
      | _ \<Rightarrow> None)"

definition wrapOptions :: "jv list \<Rightarrow> jv list" where
  \<comment> \<open>\<^verbatim>\<open>injectData.map(function(currentData) { return [{ text: currentData, language:
      "en" }]; })\<close>; \<^verbatim>\<open>map\<close> leaves holes as they are\<close>
  "wrapOptions ds =
     map (\<lambda>currentData. if currentData = JUndefined then JUndefined
                          else JArr [JObj [(''text'', currentData), (''language'', JStr ''en'')]]) ds"

fun injectLoop ::
  "env \<Rightarrow> jv \<Rightarrow> jv \<Rightarrow> jv \<times> step list \<Rightarrow> string list \<Rightarrow> string list \<Rightarrow> (jv \<times> error option) option"
where
  \<comment> \<open>the \<^verbatim>\<open>for\<close> loop over \<open>subFields\<close>, with the \<open>subIds\<close> not yet used; the third
      argument is the document, the fourth \<open>currentObject\<close> and its place. The result
      is the document after the loop and the exception thrown, if any\<close>
  "injectLoop e injectData d cur [] ids = Some (d, None)"
| "injectLoop e injectData d cur (currentField # fs) (currentFieldId # ids) =
     (if nullish (fst cur) then Some (d, Some TypeError)
      else case getProp (fst cur) currentField of
             JArr xs \<Rightarrow>
               (case findByIdString e currentFieldId xs 0 of
                  Inl err \<Rightarrow> Some (d, Some err)
                | Inr None \<Rightarrow> injectLoop e injectData d (JUndefined, []) fs ids
                | Inr (Some i) \<Rightarrow>
                    injectLoop e injectData d (xs ! i, snd cur @ [Field currentField, Index i]) fs ids)
           | _ \<Rightarrow> Some (d, Some TypeError))"
| "injectLoop e injectData d cur (currentField # fs) [] =
     (if currentField = ''enum_opts'' then
        (case injectData of
           JArr ds \<Rightarrow>
             (if \<not> isObject (fst cur) then Some (d, Some TypeError)
              else case assignValue (fst cur) currentField (JArr (wrapOptions ds)) of
                     None \<Rightarrow> None
                   | Some c \<Rightarrow> injectLoop e injectData (replaceAt d (snd cur) c) (c, snd cur) fs [])
         | _ \<Rightarrow> Some (d, Some TypeError))
      else if nullish (fst cur) then Some (d, Some TypeError)
      else case getProp (fst cur) currentField of
             JArr xs \<Rightarrow>
               (case argumentsOf injectData of
                  None \<Rightarrow> None
                | Some (Inl err) \<Rightarrow> Some (d, Some err)
                | Some (Inr args) \<Rightarrow>
                    (case pushOnto (fst cur) args of
                       None \<Rightarrow> None
                     | Some (Inl err) \<Rightarrow> Some (d, Some err)
                     | Some (Inr c) \<Rightarrow>
                         injectLoop e injectData (replaceAt d (snd cur) c) (c, snd cur) fs []))
           | _ \<Rightarrow> Some (d, Some TypeError))"

definition genericInject ::
  "env \<Rightarrow> bool \<Rightarrow> jv \<Rightarrow> jv \<Rightarrow> jv \<Rightarrow> jv \<Rightarrow> (doc_state \<times> outcome) option"
where
  \<comment> \<open>the arguments after \<open>saveEnabled\<close> are \<^verbatim>\<open>query\<close>, \<^verbatim>\<open>injectData\<close>,
      \<^verbatim>\<open>injectToField\<close> and \<^verbatim>\<open>injectToFieldId\<close> of the request body\<close>
  "genericInject e saveEnabled q injectData injectToField injectToFieldId =
     (let findError = fst (findOne e q); parentObject = snd (findOne e q); st = fetched parentObject
      in if truthy findError then Some (fetched JUndefined, Responded 500 findError)
         else if nullish parentObject then
           Some (st, Responded 404 (JObj [(''gigitError'', JStr ''Not found!'')]))
         else case (injectToField, injectToFieldId) of
           (JStr f, JStr i) \<Rightarrow>
             (case markModified st (JStr (hd (splitDot f))) of
                (st1, Some err) \<Rightarrow> Some (st1, Threw err)
              | (st1, None) \<Rightarrow>
                  (case injectLoop e injectData parentObject (parentObject, []) (splitDot f) (splitDot i) of
                     None \<Rightarrow> None
                   | Some (d, Some err) \<Rightarrow> Some (st1\<lparr>object := d\<rparr>, Threw err)
                   | Some (d, None) \<Rightarrow> Some (answer e saveEnabled (st1\<lparr>object := d\<rparr>))))
         | _ \<Rightarrow> Some (st, Threw TypeError))"

section \<open>pushArrayValue\<close>




section \<open>addUniqueValuesToList\<close>






section \<open>addArrayDuplicates\<close>




section \<open>addArrayDuplicates on a heap\<close>

text \<open>
  Whether a duplicate shares structure with its original cannot be read off a tree. Here
  objects and arrays are cells of a heap and a value is a primitive or the address of a
  cell; a new object is a new cell at the end of the heap. Identifiers, dates and holes
  are left out. The functions are the lines of \<^verbatim>\<open>addArrayDuplicates\<close> between the test
  \<^verbatim>\<open>Array.isArray(object[arrayField])\<close> and \<^verbatim>\<open>markModified\<close>.
\<close>

datatype hv = HNull | HBool bool | HNum int | HStr string | HRef nat

datatype cell = CObj "(string \<times> hv) list" | CArr "hv list"

type_synonym heap = "cell list"

fun numbered :: "nat \<Rightarrow> hv list \<Rightarrow> (string \<times> hv) list" where
  "numbered i [] = []"
| "numbered i (x # xs) = (nat_str i, x) # numbered (Suc i) xs"

definition ownProps :: "heap \<Rightarrow> hv \<Rightarrow> (string \<times> hv) list" where
  \<comment> \<open>the own enumerable properties \<^verbatim>\<open>Object.assign\<close> copies from a source: those of an
      object, the elements of an array and the characters of a string under their
      positions, none of another primitive\<close>
  "ownProps h v =
     (case v of
        HRef r \<Rightarrow> (case h ! r of CObj kvs \<Rightarrow> kvs | CArr xs \<Rightarrow> numbered 0 xs)
      | HStr s \<Rightarrow> numbered 0 (map (\<lambda>c. HStr [c]) s)
      | _ \<Rightarrow> [])"

fun duplicateAll :: "heap \<Rightarrow> hv list \<Rightarrow> heap \<times> hv list" where
  \<comment> \<open>the first \<^verbatim>\<open>forEach\<close>: \<^verbatim>\<open>duplicates.push(Object.assign({}, currentArrayElement))\<close>;
      the result is the heap with the new objects and the list \<open>duplicates\<close>\<close>
  "duplicateAll h [] = (h, [])"
| "duplicateAll h (x # xs) =
     (let r = duplicateAll (h @ [CObj (ownProps h x)]) xs
      in (fst r, HRef (length h) # snd r))"

definition addDuplicates :: "heap \<Rightarrow> nat \<Rightarrow> string \<Rightarrow> heap option" where
  \<comment> \<open>the object is the cell at the address \<open>obj\<close>; \<open>None\<close> is the answer
      \<^verbatim>\<open>Array not found!\<close>. The second \<^verbatim>\<open>forEach\<close> pushes the duplicates onto the array\<close>
  "addDuplicates h obj arrayField =
     (case h ! obj of
        CObj kvs \<Rightarrow>
          (case map_of kvs arrayField of
             Some (HRef a) \<Rightarrow>
               (case h ! a of
                  CArr xs \<Rightarrow>
                    (let r = duplicateAll h xs in Some ((fst r)[a := CArr (xs @ snd r)]))
                | _ \<Rightarrow> None)
           | _ \<Rightarrow> None)
      | _ \<Rightarrow> None)"

definition refsOf :: "cell \<Rightarrow> nat list" where
  \<comment> \<open>the addresses a cell holds\<close>
  "refsOf c =
     concat (map (\<lambda>v. case v of HRef r \<Rightarrow> [r] | _ \<Rightarrow> [])
                 (case c of CObj kvs \<Rightarrow> map snd kvs | CArr xs \<Rightarrow> xs))"

definition closed :: "heap \<Rightarrow> bool" where
  \<comment> \<open>every address held in the heap is an address of the heap\<close>
  "closed h = (\<forall>c \<in> set h. \<forall>r \<in> set (refsOf c). r < length h)"

definition pantry :: heap where
  \<comment> \<open>\<^verbatim>\<open>{xs: [{inner: {n: 1}}, "a"]}\<close>: the document is cell 0, the array cell 1\<close>
  "pantry = [CObj [(''xs'', HRef 1)], CArr [HRef 2, HStr ''a''],
             CObj [(''inner'', HRef 3)], CObj [(''n'', HNum 1)]]"

section \<open>A sample store\<close>

definition storeOf :: "jv \<Rightarrow> env" where
  \<comment> \<open>a store that holds one document, saves whatever it is given, and reads identifiers
      from strings\<close>
  "storeOf d =
     \<lparr>findOne = (\<lambda>q. (JNull, d)), find = (\<lambda>q. (JNull, JArr [d])), save = Inr, remove_doc = Inr,
      ObjectId = (\<lambda>v. case v of JStr s \<Rightarrow> Some (JOid s) | _ \<Rightarrow> None),
      equals = (\<lambda>h v. v = JOid h \<or> v = JStr h), dateString = (\<lambda>n. nat_str n), now = 0\<rparr>"

definition order :: jv where
  \<comment> \<open>a document with an array of two sub-documents\<close>
  "order = JObj [(''items'', JArr [JObj [(''_id'', JOid ''aa''), (''n'', JNum 1)],
                                    JObj [(''_id'', JOid ''bb''), (''n'', JNum 2)]])]"

definition shelf :: jv where
  \<comment> \<open>a document whose array holds an element with the key \<^verbatim>\<open>constructor\<close>\<close>
  "shelf = JObj [(''xs'', JArr [JObj [(''id'', JNum 1), (''k'', JStr ''constructor'')],
                                 JObj [(''id'', JNum 2), (''k'', JStr ''x'')]])]"

definition catalogue :: jv where
  \<comment> \<open>a document with a sub-document that holds an array\<close>
  "catalogue = JObj [(''items'', JArr [JObj [(''_id'', JOid ''aa''), (''tags'', JArr [JStr ''x''])]])]"


definition untouched :: "doc_state \<Rightarrow> doc_state \<Rightarrow> bool" where
  \<comment> \<open>the second state has the calls of \<^verbatim>\<open>save\<close> and \<^verbatim>\<open>remove\<close> of the first\<close>
  "untouched st st' = (saves st' = saves st \<and> removes st' = removes st)"


section \<open>Properties of the path functions\<close>


























section \<open>Appending through genericChangeField\<close>



lemma pushChange_non_array:
  assumes "lhas d P" "lget d P JUndefined \<noteq> JUndefined" "\<not> isArray (lget d P JUndefined)"
    and "object st = d"
  shows "pushChange st P v = Some (st, Some (HttpError 500 (P @ '' is not an array'')))"
proof -
  have "lget d P v = lget d P JUndefined"
    using assms(2) by (simp add: lget_def Let_def)
  then show ?thesis
    using assms by (cases "lget d P JUndefined") (simp_all add: pushChange_def)
qed

text \<open>
  Claim C2. Let the dotted path \<open>P\<close> be present in the fetched document (\<^verbatim>\<open>_.has\<close> is
  true) and hold a defined value that is not an array. Then the change
  \<^verbatim>\<open>{P: {$push: v}}\<close> throws the error ``\<open>P\<close> is not an array'', the document in memory is
  the fetched one, \<^verbatim>\<open>markModified\<close> was not called and nothing was saved.
\<close>

theorem append_to_non_array_fails:
  assumes "dotted P"
    and "nullish (fst (findOne e q))" and "snd (findOne e q) = d"
    and "lhas d P"
    and "lget d P JUndefined \<noteq> JUndefined" and "\<not> isArray (lget d P JUndefined)"
  shows "genericChangeField e s q (JObj [(P, JObj [(''$push'', v)])])
           = Some (fetched d, Threw (HttpError 500 (P @ '' is not an array'')))"
proof -
  have "pushChange (fetched d) P v
          = Some (fetched d, Some (HttpError 500 (P @ '' is not an array'')))"
    using pushChange_non_array [OF assms(4,5,6)] by (simp add: fetched_def)
  then have "applyChange e (fetched d) (P, JObj [(''$push'', v)])
          = Some (fetched d, Some (HttpError 500 (P @ '' is not an array'')))"
    by (simp add: applyChange_def)
  then show ?thesis
    using assms(2,3) by (simp add: genericChangeField_def Let_def)
qed

theorem append_to_non_array_fails_witness:
  "genericChangeField (storeOf (JObj [(''n'', JNum 5)])) False JNull
       (JObj [(''n'', JObj [(''$push'', JStr ''c'')])])
     = Some (\<lparr>object = JObj [(''n'', JNum 5)], marked = [], saves = 0, removes = 0\<rparr>,
             Threw (HttpError 500 ''n is not an array''))"
proof -
  let ?d = "JObj [(''n'', JNum 5)]"
  have a: "dotted ''n''" by (simp add: dotted_def plainKey_def objectPrototypeKeys_def)
  have b: "nullish (fst (findOne (storeOf ?d) JNull))" by (simp add: storeOf_def nullish_def)
  have c: "snd (findOne (storeOf ?d) JNull) = ?d" by (simp add: storeOf_def)
  have h: "lhas ?d ''n''" by (simp add: lhas_def castPath_def isKey_def nullish_def)
  have g: "lget ?d ''n'' JUndefined = JNum 5"
    by (simp add: lget_def baseGet_def castPath_def isKey_def nullish_def)
  show ?thesis
    using append_to_non_array_fails [OF a b c h, of False "JStr ''c''"] g
    by (simp add: fetched_def)
qed

section \<open>Status records\<close>



section \<open>Marking modified fields\<close>

text \<open>
  Claim C5. Every mutation passes the top-level field name of the path it touched to
  \<^verbatim>\<open>markModified\<close> before the save. The branch of \<^verbatim>\<open>genericDeleteRoute\<close> for
  \<^verbatim>\<open>deleteFieldsById\<close> does not: it calls \<^verbatim>\<open>object.markModified(deleteFieldsById[0])\<close>, the
  first descriptor itself and not its \<^verbatim>\<open>field\<close>. Deleting the element \<^verbatim>\<open>bb\<close> of \<^verbatim>\<open>items\<close>
  with saving on removes the element, saves, and has marked the object
  \<^verbatim>\<open>{field: "items", id: "bb"}\<close>; the name \<^verbatim>\<open>items\<close> was never marked.
\<close>

theorem deleteFieldsById_marks_descriptor:
  "genericDeleteRoute (storeOf order) True
      \<lparr>query = JObj [], deleteFields = JUndefined,
       deleteFieldsById = JArr [JObj [(''field'', JStr ''items''), (''id'', JStr ''bb'')]],
       deleteAll = JUndefined, deleteArray = JUndefined\<rparr>
   = (\<lparr>object = JObj [(''items'', JArr [JObj [(''_id'', JOid ''aa''), (''n'', JNum 1)]])],
       marked = [JObj [(''field'', JStr ''items''), (''id'', JStr ''bb'')]],
       saves = 1, removes = 0\<rparr>,
      Responded 200 (JObj [(''items'', JArr [JObj [(''_id'', JOid ''aa''), (''n'', JNum 1)]])]))"
  by code_simp

section \<open>Requests without a query\<close>

lemma delete_without_query:
  "nullish (query rq) \<Longrightarrow>
   genericDeleteRoute e s rq = (fetched JUndefined, Responded 500 (JStr ''No query'')) \<or>
   genericDeleteRoute e s rq = (fetched JUndefined, Responded 400 (JStr ''Nothing to delete!''))"
  by (simp add: genericDeleteRoute_def)

text \<open>
  Claim C7. A mutation request without a query fails before any document is resolved or
  changed. \<^verbatim>\<open>genericDeleteRoute\<close> does so (\<open>delete_without_query\<close>);
  \<^verbatim>\<open>genericChangeField\<close> has no such check and hands the absent query to \<^verbatim>\<open>findOne\<close>. With a
  store that answers the absent query with a document, the change is applied to that
  document and saved, and the response is 201.
\<close>

theorem change_without_query_mutates:
  "genericChangeField (storeOf (JObj [(''name'', JStr ''x'')])) True JUndefined
      (JObj [(''a'', JObj [(''$set'', JNum 1)])])
   = Some (\<lparr>object = JObj [(''name'', JStr ''x''), (''a'', JNum 1)],
             marked = [JStr ''a''], saves = 1, removes = 0\<rparr>,
           Responded 201 (JObj [(''name'', JStr ''x''), (''a'', JNum 1)]))"
  by code_simp

section \<open>The branches of genericTranslate\<close>

text \<open>
  Claim C10. The test on \<^verbatim>\<open>findError\<close> in \<^verbatim>\<open>genericTranslate\<close> is the wrong way round.
  When \<^verbatim>\<open>find\<close> reports no error, the response is 500 and no object is visited: nothing is
  moved, marked or saved. The loop over the objects is reached only when \<^verbatim>\<open>find\<close>
  reports an error, and with the objects then undefined it throws a TypeError.
\<close>

theorem translate_branches_inverted:
  "(nullish (fst (find e q)) \<longrightarrow>
      genericTranslate e q updates = Some ([], Responded 500 (fst (find e q)))) \<and>
   (\<not> nullish (fst (find e q)) \<and> nullish (snd (find e q)) \<longrightarrow>
      genericTranslate e q updates = Some ([], Threw TypeError)) \<and>
   (\<forall>sts out. genericTranslate e q updates = Some (sts, out) \<and> sts \<noteq> [] \<longrightarrow>
      \<not> nullish (fst (find e q)))"
  by (auto simp: genericTranslate_def Let_def nullish_def)

theorem translate_branches_inverted_witness:
  "genericTranslate (storeOf order) (JObj [])
       (JArr [JObj [(''fromField'', JStr ''items''), (''toField'', JStr ''lines'')]])
     = Some ([], Responded 500 JNull) \<and>
   genericTranslate ((storeOf order)\<lparr>find := (\<lambda>q. (JStr ''down'', JUndefined))\<rparr>) (JObj [])
       (JArr [JObj [(''fromField'', JStr ''items''), (''toField'', JStr ''lines'')]])
     = Some ([], Threw TypeError)"
proof -
  let ?u = "JArr [JObj [(''fromField'', JStr ''items''), (''toField'', JStr ''lines'')]]"
  let ?down = "(storeOf order)\<lparr>find := (\<lambda>q. (JStr ''down'', JUndefined))\<rparr>"
  have a: "fst (find (storeOf order) (JObj [])) = JNull" by (simp add: storeOf_def)
  have b: "fst (find ?down (JObj [])) = JStr ''down''" "snd (find ?down (JObj [])) = JUndefined"
    by simp_all
  show ?thesis
    using translate_branches_inverted [of "storeOf order" "JObj []" ?u]
      translate_branches_inverted [of ?down "JObj []" ?u]
    unfolding a b by (simp add: nullish_def)
qed

section \<open>Evaluating on the sample store\<close>

lemma storeOf_sel:
  "findOne (storeOf d) q = (JNull, d)" "find (storeOf d) q = (JNull, JArr [d])"
  "save (storeOf d) = Inr" "remove_doc (storeOf d) = Inr"
  "dateString (storeOf d) = nat_str" "now (storeOf d) = 0"
  "equals (storeOf d) h v = (v = JOid h \<or> v = JStr h)"
  by (simp_all add: storeOf_def)

lemma nat_str_digits: "nat_str 0 = ''0''" "nat_str 1 = ''1''"
  by code_simp+

section \<open>Removing duplicates\<close>

text \<open>
  Claim C4. \<^verbatim>\<open>removeArrayDuplicates\<close> keeps the first element of every key. It does not for
  a key that is a name every object inherits: \<^verbatim>\<open>objectKeys\<close> is a plain object, so
  \<^verbatim>\<open>objectKeys["constructor"]\<close> is truthy before any key was stored, and the callback
  returns false. With the unique field \<^verbatim>\<open>k\<close>, the array
  \<^verbatim>\<open>[{id: 1, k: "constructor"}, {id: 2, k: "x"}]\<close> loses its first element, the only one
  with its key.
\<close>

theorem dedupe_drops_inherited_key:
  "removeArrayDuplicates (storeOf shelf) False (JObj []) (JStr ''k'') (JStr ''xs'')
   = (\<lparr>object = JObj [(''xs'', JArr [JObj [(''id'', JNum 2), (''k'', JStr ''x'')]])],
       marked = [JStr ''xs''], saves = 0, removes = 0\<rparr>,
      Responded 200 (JObj [(''xs'', JArr [JObj [(''id'', JNum 2), (''k'', JStr ''x'')]])]))"
  by code_simp

section \<open>Injecting into a nested array\<close>

lemma push_y:
  "pushOnto (JObj [(''_id'', JOid ''aa''), (''tags'', JArr [JStr ''x''])]) [JStr ''y'']
   = Some (Inr (JObj [(''_id'', JOid ''aa''), (''tags'', JArr [JStr ''x'']),
                      (''0'', JStr ''y''), (''length'', JNum 1)]))"
  by (simp add: pushOnto_def nat_str_digits)

text \<open>
  Claim C8. \<^verbatim>\<open>genericInject\<close> descends to the target array and appends the inject elements
  to it. The descent is as claimed, the append is not: the call is
  \<^verbatim>\<open>currentObject[currentField].push.apply(currentObject, injectArray)\<close>, so \<^verbatim>\<open>push\<close> runs
  on the element that holds the array and not on the array. Injecting \<^verbatim>\<open>["y"]\<close> at
  \<^verbatim>\<open>items.tags\<close> of the element \<^verbatim>\<open>aa\<close> leaves \<^verbatim>\<open>tags\<close> as \<^verbatim>\<open>["x"]\<close> and gives the element
  the properties \<^verbatim>\<open>0\<close> and \<^verbatim>\<open>length\<close>.
\<close>

theorem inject_misses_target_array:
  "genericInject (storeOf catalogue) False (JObj []) (JArr [JStr ''y'']) (JStr ''items.tags'') (JStr ''aa'')
   = Some (\<lparr>object = JObj [(''items'', JArr [JObj [(''_id'', JOid ''aa''), (''tags'', JArr [JStr ''x'']),
                                                    (''0'', JStr ''y''), (''length'', JNum 1)]])],
             marked = [JStr ''items''], saves = 0, removes = 0\<rparr>,
           Responded 200
             (JObj [(''items'', JArr [JObj [(''_id'', JOid ''aa''), (''tags'', JArr [JStr ''x'']),
                                            (''0'', JStr ''y''), (''length'', JNum 1)]])]))"
  by (simp add: genericInject_def storeOf_sel catalogue_def fetched_def markModified_def nullish_def
      toStringOf_def Let_def push_y argumentsOf_def answer_def elem_def)

section \<open>Requests with saving off\<close>


lemma untouched_object: "untouched st (st\<lparr>object := d\<rparr>)"
  by (simp add: untouched_def)
































end
